theory Spec2Isabelle
  imports Main
begin

section \<open>The data model of \<open>Arbitrary-precision-integer-calculator.py\<close>\<close>

text \<open>
  The class \<open>BigInt\<close> has two fields: the radix \<open>base\<close> and the list \<open>digits\<close>,
  most significant digit first. Python integers are unbounded, so both are modelled
  with \<open>int\<close>. The sign of a number is carried by the sign of its digits.
\<close>

record BigInt =
  base :: int
  digits :: "int list"

text \<open>
  Every exception the engine can raise is a value of \<open>error\<close>. Python raises
  \<open>ValueError\<close> for three different conditions; they are kept apart here:
  \<^item> \<open>OutOfRangeDigit\<close>: the \<open>ValueError\<close> raised by \<open>_validate_digits\<close>;
  \<^item> \<open>InvalidLiteral\<close>: the \<open>ValueError\<close> raised by the builtin \<open>int(char, base)\<close>;
  \<^item> \<open>InvalidDomain\<close>: the \<open>ValueError\<close> raised by \<open>factorial\<close>;
  \<^item> \<open>DivisionByZero\<close>: \<open>ZeroDivisionError\<close>, raised explicitly by \<open>__floordiv__\<close> and
    \<open>__mod__\<close> and by the operators \<open>//\<close> and \<open>%\<close> when the base is zero;
  \<^item> \<open>IndexError\<close>: \<open>self.digits[0]\<close> on an empty digit list;
  \<^item> \<open>TypeError\<close>: an operator the class does not define;
  \<^item> \<open>RecursionError\<close>: the interpreter's call stack is exhausted.
\<close>

datatype error =
    OutOfRangeDigit
  | InvalidLiteral
  | InvalidDomain
  | DivisionByZero
  | IndexError
  | TypeError
  | RecursionError

text \<open>The argument \<open>value\<close> of the constructor, by its run-time type.\<close>

datatype py_value = PyInt int | PyStr string | PyList "int list" | PyOther

section \<open>Builtins of Python used by the engine\<close>

text \<open>
  \<open>str.strip()\<close> removes whitespace at both ends. A \<open>char\<close> is read as a code point
  below 256; these are the code points for which \<open>str.isspace\<close> holds there.
\<close>

definition isspace :: "char \<Rightarrow> bool" where
  "isspace c = (of_char c \<in> {9, 10, 11, 12, 13, 28, 29, 30, 31, 32, 133, 160 :: nat})"

definition strip :: "string \<Rightarrow> string" where
  "strip s = rev (dropWhile isspace (rev (dropWhile isspace s)))"

text \<open>
  The value of one character as a digit: \<open>0\<close>..\<open>9\<close>, then the letters of either case
  for 10..35.
\<close>

definition char_digit :: "char \<Rightarrow> int option" where
  "char_digit c =
     (let n = (of_char c :: nat) in
      if 48 \<le> n \<and> n \<le> 57 then Some (int n - 48)
      else if 97 \<le> n \<and> n \<le> 122 then Some (int n - 87)
      else if 65 \<le> n \<and> n \<le> 90 then Some (int n - 55)
      else None)"

text \<open>
  \<open>int(char, base)\<close> on a string of one character: the digit when it is below the
  base, for a base in 2..36; base 0 reads a decimal digit; every other case raises
  \<open>ValueError\<close>.
\<close>

definition int_char :: "char \<Rightarrow> int \<Rightarrow> error + int" where
  "int_char c b =
     (case char_digit c of
        None \<Rightarrow> Inl InvalidLiteral
      | Some v \<Rightarrow>
          if b = 0 then (if v < 10 then Inr v else Inl InvalidLiteral)
          else if 2 \<le> b \<and> b \<le> 36 then (if v < b then Inr v else Inl InvalidLiteral)
          else Inl InvalidLiteral)"

text \<open>\<open>str(n)\<close> for a natural number: its decimal numeral.\<close>

definition digit_char :: "nat \<Rightarrow> char" where
  "digit_char n = char_of (48 + n)"

function str_nat :: "nat \<Rightarrow> string" where
  "str_nat n = (if n < 10 then [digit_char n] else str_nat (n div 10) @ [digit_char (n mod 10)])"
  by pat_completeness auto
termination
  by (relation "measure id") auto

declare str_nat.simps [simp del]

section \<open>Construction\<close>

text \<open>
  \<open>_validate_digits\<close>: the first digit that is negative or not below the base raises.
\<close>

fun validate_digits :: "int \<Rightarrow> int list \<Rightarrow> error + unit" where
  "validate_digits b [] = Inr ()"
| "validate_digits b (digit # ds) =
     (if digit < 0 \<or> digit \<ge> b then Inl OutOfRangeDigit else validate_digits b ds)"

text \<open>The loop of \<open>from_str\<close> over the characters, appending \<open>int(char, base)\<close>.\<close>

fun parse_chars :: "string \<Rightarrow> int \<Rightarrow> int list \<Rightarrow> error + int list" where
  "parse_chars [] b ds = Inr ds"
| "parse_chars (c # cs) b ds =
     (case int_char c b of
        Inl e \<Rightarrow> Inl e
      | Inr d \<Rightarrow> parse_chars cs b (ds @ [d]))"

text \<open>
  \<open>from_str\<close> sets the digits of the object under construction; the model returns them.
\<close>

definition from_str :: "string \<Rightarrow> int \<Rightarrow> error + int list" where
  "from_str v b =
     (let v = strip v;
          sign = (if v \<noteq> [] \<and> hd v = CHR ''-'' then - 1 else 1 :: int);
          v = (if v \<noteq> [] \<and> hd v = CHR ''-'' then tl v else v)
      in case (if v = ''0'' then Inr [0] else parse_chars v b []) of
           Inl e \<Rightarrow> Inl e
         | Inr ds \<Rightarrow> Inr (if sign = - 1 then map uminus ds else ds))"

text \<open>
  The loop \<open>while value > 0\<close> of the constructor. It does not end when the base is 1,
  so it is a partial function: \<open>None\<close> is the loop that never returns.
\<close>

partial_function (option) int_digits_loop :: "int \<Rightarrow> int \<Rightarrow> int list \<Rightarrow> (error + int list) option"
where
  "int_digits_loop v b ds =
     (if v > 0 then
        (if b = 0 then Some (Inl DivisionByZero)
         else int_digits_loop (v div b) b (ds @ [v mod b]))
      else Some (Inr ds))"

declare int_digits_loop.simps [code]

text \<open>The end of \<open>__init__\<close>: validation, then the object.\<close>

definition validated :: "int \<Rightarrow> int list \<Rightarrow> error + BigInt" where
  "validated b ds =
     (case validate_digits b ds of
        Inl e \<Rightarrow> Inl e
      | Inr _ \<Rightarrow> Inr \<lparr>base = b, digits = ds\<rparr>)"

definition init :: "py_value \<Rightarrow> int \<Rightarrow> (error + BigInt) option" where
  "init v b =
     (case v of
        PyInt n \<Rightarrow>
          (if n = 0 then Some (validated b [0])
           else (case int_digits_loop n b [] of
                   None \<Rightarrow> None
                 | Some (Inl e) \<Rightarrow> Some (Inl e)
                 | Some (Inr ds) \<Rightarrow> Some (validated b (rev ds))))
      | PyStr s \<Rightarrow>
          (case from_str s b of
             Inl e \<Rightarrow> Some (Inl e)
           | Inr ds \<Rightarrow> Some (validated b ds))
      | PyList ds \<Rightarrow> Some (validated b ds)
      | PyOther \<Rightarrow> Some (validated b []))"

section \<open>Conversions\<close>

text \<open>\<open>__str__\<close>: every digit is printed by \<open>str(abs(digit))\<close>, its decimal numeral.\<close>

definition str_BigInt :: "BigInt \<Rightarrow> string" where
  "str_BigInt self =
     (if digits self \<noteq> [] \<and> hd (digits self) < 0
      then CHR ''-'' # concat (map (\<lambda>digit. str_nat (nat \<bar>digit\<bar>)) (digits self))
      else concat (map (\<lambda>digit. str_nat (nat \<bar>digit\<bar>)) (digits self)))"

text \<open>\<open>to_int\<close>: the fold over the digits, then \<open>self.digits[0]\<close> for the sign.\<close>

definition to_int :: "BigInt \<Rightarrow> error + int" where
  "to_int self =
     (let result = fold (\<lambda>digit result. result * base self + \<bar>digit\<bar>) (digits self) 0
      in case digits self of
           [] \<Rightarrow> Inl IndexError
         | d # _ \<Rightarrow> Inr (result * (if d \<ge> 0 then 1 else - 1)))"

text \<open>\<open>_normalize\<close>: \<open>while len(self.digits) > 1 and self.digits[0] == 0: pop(0)\<close>.\<close>

fun normalize :: "int list \<Rightarrow> int list" where
  "normalize (d # e # ds) = (if d = 0 then normalize (e # ds) else d # e # ds)"
| "normalize ds = ds"

text \<open>
  \<open>__abs__\<close> and \<open>__neg__\<close> build \<open>BigInt()\<close> and then overwrite both of its fields,
  without validation.
\<close>

definition abs_BigInt :: "BigInt \<Rightarrow> BigInt" where
  "abs_BigInt self = \<lparr>base = base self, digits = map abs (digits self)\<rparr>"

definition neg :: "BigInt \<Rightarrow> BigInt" where
  "neg self = \<lparr>base = base self, digits = map uminus (digits self)\<rparr>"

section \<open>Addition and subtraction\<close>

text \<open>
  One pass of the loop \<open>for i in range(max_len)\<close> of \<open>__add__\<close>; the state is the
  carry and the result digits, least significant first.
\<close>

definition add_step :: "int \<Rightarrow> int list \<Rightarrow> int list \<Rightarrow> nat \<Rightarrow> int \<times> int list \<Rightarrow> int \<times> int list" where
  "add_step b a_digits b_digits i = (\<lambda>(carry, result_digits).
     let a_digit = (if i < length a_digits then a_digits ! i else 0);
         b_digit = (if i < length b_digits then b_digits ! i else 0);
         total = a_digit + b_digit + carry
     in (total div b, result_digits @ [total mod b]))"

text \<open>
  The part of \<open>__add__\<close> after the sign dispatch; both digit lists are non-empty
  there, so the loop runs and \<open>total // self.base\<close> raises when the base is zero.
  The result is \<open>BigInt()\<close> with its digits overwritten: its base stays 10.
\<close>

definition add_digits :: "BigInt \<Rightarrow> BigInt \<Rightarrow> error + BigInt" where
  "add_digits self other =
     (let sign = (if hd (digits self) \<ge> 0 then 1 else - 1 :: int);
          a_digits = map abs (rev (digits self));
          b_digits = map abs (rev (digits other));
          max_len = max (length a_digits) (length b_digits)
      in if base self = 0 \<and> max_len > 0 then Inl DivisionByZero
         else
           (let (carry, result_digits) =
                  fold (add_step (base self) a_digits b_digits) [0..<max_len] (0, []);
                result_digits = (if carry \<noteq> 0 then result_digits @ [carry] else result_digits)
            in Inr \<lparr>base = 10, digits = normalize (map (\<lambda>d. sign * d) (rev result_digits))\<rparr>))"

text \<open>One pass of the borrow loop of \<open>__sub__\<close>.\<close>

definition sub_step :: "int \<Rightarrow> int list \<Rightarrow> int list \<Rightarrow> nat \<Rightarrow> int \<times> int list \<Rightarrow> int \<times> int list" where
  "sub_step b a_digits b_digits i = (\<lambda>(borrow, result_digits).
     let a_digit = (if i < length a_digits then a_digits ! i else 0);
         b_digit = (if i < length b_digits then b_digits ! i else 0);
         total = a_digit - b_digit - borrow
     in if total < 0 then (1, result_digits @ [total + b]) else (0, result_digits @ [total]))"

definition sub_digits :: "BigInt \<Rightarrow> BigInt \<Rightarrow> BigInt" where
  "sub_digits self other =
     (let a_digits = rev (digits self);
          b_digits = rev (digits other);
          max_len = max (length a_digits) (length b_digits);
          (borrow, result_digits) =
             fold (sub_step (base self) a_digits b_digits) [0..<max_len] (0, [])
      in \<lparr>base = 10, digits = normalize (rev result_digits)\<rparr>)"

text \<open>
  \<open>abs(self) < abs(other)\<close> in \<open>__sub__\<close> compares two \<open>BigInt\<close> objects. The class
  defines neither \<open>__lt__\<close> nor \<open>__gt__\<close>, so Python raises \<open>TypeError\<close> whatever the
  operands are.
\<close>

definition lt_BigInt :: "BigInt \<Rightarrow> BigInt \<Rightarrow> error + bool" where
  "lt_BigInt a b = Inl TypeError"

text \<open>
  \<open>__add__\<close> and \<open>__sub__\<close> call each other. The first argument is the number of
  nested calls the interpreter's stack still allows; at 0 the call raises
  \<open>RecursionError\<close>. \<open>self.digits[0]\<close> raises \<open>IndexError\<close> on an empty list: in both
  methods the conditions read the first digit of both operands before any branch
  is taken.
\<close>

fun add :: "nat \<Rightarrow> BigInt \<Rightarrow> BigInt \<Rightarrow> error + BigInt"
and sub :: "nat \<Rightarrow> BigInt \<Rightarrow> BigInt \<Rightarrow> error + BigInt" where
  "add 0 self other = Inl RecursionError"
| "add (Suc depth) self other =
     (if digits self = [] \<or> digits other = [] then Inl IndexError
      else if hd (digits self) < 0 \<and> hd (digits other) \<ge> 0
        then sub depth other (abs_BigInt self)
      else if hd (digits self) \<ge> 0 \<and> hd (digits other) < 0
        then sub depth self (abs_BigInt other)
      else add_digits self other)"
| "sub 0 self other = Inl RecursionError"
| "sub (Suc depth) self other =
     (if digits self = [] \<or> digits other = [] then Inl IndexError
      else if hd (digits self) < 0 \<and> hd (digits other) < 0
        then sub depth (abs_BigInt other) (abs_BigInt self)
      else if hd (digits self) < 0
        then sub depth (neg (abs_BigInt self)) other
      else if hd (digits other) < 0
        then add depth self (abs_BigInt other)
      else (case lt_BigInt (abs_BigInt self) (abs_BigInt other) of
              Inl e \<Rightarrow> Inl e
            | Inr True \<Rightarrow>
                (case sub depth other self of
                   Inl e \<Rightarrow> Inl e
                 | Inr result \<Rightarrow> Inr (result\<lparr>digits := map uminus (digits result)\<rparr>))
            | Inr False \<Rightarrow> Inr (sub_digits self other)))"

section \<open>Multiplication\<close>

text \<open>
  The inner loop \<open>for j in range(len(b_digits) - 1, -1, -1)\<close> updates the slot
  \<open>i + j + 1\<close>, which is always inside the list of \<open>len(self) + len(other)\<close> slots.
\<close>

definition mul_inner_step :: "int \<Rightarrow> int list \<Rightarrow> int list \<Rightarrow> nat \<Rightarrow> nat \<Rightarrow> int \<times> int list \<Rightarrow> int \<times> int list" where
  "mul_inner_step b a_digits b_digits i j = (\<lambda>(carry, result_digits).
     let mul = a_digits ! i * b_digits ! j + result_digits ! (i + j + 1) + carry
     in (mul div b, result_digits[i + j + 1 := mul mod b]))"

text \<open>
  One pass of the outer loop. After the inner loop \<open>j\<close> is 0, so
  \<open>result_digits[i + j] = carry\<close> writes the slot \<open>i\<close>.
\<close>

definition mul_outer_step :: "int \<Rightarrow> int list \<Rightarrow> int list \<Rightarrow> nat \<Rightarrow> int list \<Rightarrow> int list" where
  "mul_outer_step b a_digits b_digits i result_digits =
     (let (carry, result_digits) =
            fold (mul_inner_step b a_digits b_digits i) (rev [0..<length b_digits]) (0, result_digits)
      in result_digits[i + 0 := carry])"

definition mul :: "BigInt \<Rightarrow> BigInt \<Rightarrow> error + BigInt" where
  "mul self other =
     (if digits self = [] \<or> digits other = [] then Inl IndexError
      else if base self = 0 then Inl DivisionByZero
      else
        (let sign = (if hd (digits self) < 0 then - 1 else 1) *
                    (if hd (digits other) < 0 then - 1 else 1 :: int);
             result_digits = replicate (length (digits self) + length (digits other)) 0;
             a_digits = map abs (digits self);
             b_digits = map abs (digits other);
             result_digits =
               fold (mul_outer_step (base self) a_digits b_digits) (rev [0..<length a_digits])
                 result_digits
         in Inr \<lparr>base = 10, digits = normalize (map (\<lambda>d. sign * d) result_digits)\<rparr>))"

section \<open>Division and modulo\<close>

text \<open>\<open>_list_compare\<close>: by length first, then the first differing pair.\<close>

fun zip_compare :: "(int \<times> int) list \<Rightarrow> int" where
  "zip_compare [] = 0"
| "zip_compare ((x, y) # ps) = (if x > y then 1 else if x < y then - 1 else zip_compare ps)"

definition list_compare :: "int list \<Rightarrow> int list \<Rightarrow> int" where
  "list_compare a b =
     (if length a > length b then 1
      else if length a < length b then - 1
      else zip_compare (zip a b))"

text \<open>
  \<open>_list_subtract\<close>: the borrow adds the constant 10 whatever the base of the operands
  (the source's comment: \<open>Assuming base 10 for subtraction\<close>). The last borrow is
  dropped; trailing zeros of the reversed result are popped.
\<close>

definition list_subtract_step :: "int list \<Rightarrow> int list \<Rightarrow> nat \<Rightarrow> int \<times> int list \<Rightarrow> int \<times> int list" where
  "list_subtract_step a b i = (\<lambda>(borrow, result).
     let x = (if i < length a then a ! i else 0);
         y = (if i < length b then b ! i else 0);
         total = x - y - borrow
     in if total < 0 then (1, result @ [total + 10]) else (0, result @ [total]))"

definition list_subtract :: "int list \<Rightarrow> int list \<Rightarrow> int list" where
  "list_subtract a b =
     (let a = rev a;
          b = rev b;
          (borrow, result) =
             fold (list_subtract_step a b) [0..<max (length a) (length b)] (0, []);
          result = rev (dropWhile (\<lambda>d. d = 0) (rev result))
      in if rev result = [] then [0] else rev result)"

text \<open>
  The inner loop \<open>while _list_compare(remainder, divisor) >= 0\<close> of \<open>__floordiv__\<close>,
  counting the subtractions. Nothing in the source bounds it, so it is a partial
  function.
\<close>

partial_function (option) div_while :: "int list \<Rightarrow> int list \<Rightarrow> int \<Rightarrow> (int list \<times> int) option" where
  "div_while remainder divisor count =
     (if list_compare remainder divisor \<ge> 0
      then div_while (list_subtract remainder divisor) divisor (count + 1)
      else Some (remainder, count))"

declare div_while.simps [code]

text \<open>
  The loop \<open>for digit in dividend\<close> of \<open>__floordiv__\<close>: append the digit, strip the
  leading zeros of the remainder, subtract while possible, append the count.
\<close>

fun long_division :: "int list \<Rightarrow> int list \<Rightarrow> int list \<Rightarrow> int list \<Rightarrow> (int list \<times> int list) option" where
  "long_division [] divisor remainder quot = Some (remainder, quot)"
| "long_division (digit # dividend) divisor remainder quot =
     (case div_while (normalize (remainder @ [digit])) divisor 0 of
        None \<Rightarrow> None
      | Some (remainder, count) \<Rightarrow> long_division dividend divisor remainder (quot @ [count]))"

definition floordiv :: "BigInt \<Rightarrow> BigInt \<Rightarrow> (error + BigInt) option" where
  "floordiv self other =
     (case to_int other of
        Inl e \<Rightarrow> Some (Inl e)
      | Inr v \<Rightarrow>
          if v = 0 then Some (Inl DivisionByZero)
          else if digits self = [] then Some (Inl IndexError)
          else
            (let sign = (if hd (digits self) < 0 then - 1 else 1) *
                        (if hd (digits other) < 0 then - 1 else 1 :: int);
                 dividend = map abs (digits self);
                 divisor = map abs (digits other)
             in case long_division dividend divisor [] [] of
                  None \<Rightarrow> None
                | Some (remainder, quot) \<Rightarrow>
                    Some (Inr \<lparr>base = 10, digits = normalize (map (\<lambda>d. sign * d) quot)\<rparr>)))"

text \<open>The same two loops in \<open>__mod__\<close>, without the count.\<close>

partial_function (option) mod_while :: "int list \<Rightarrow> int list \<Rightarrow> int list option" where
  "mod_while remainder divisor =
     (if list_compare remainder divisor \<ge> 0
      then mod_while (list_subtract remainder divisor) divisor
      else Some remainder)"

declare mod_while.simps [code]

fun mod_division :: "int list \<Rightarrow> int list \<Rightarrow> int list \<Rightarrow> int list option" where
  "mod_division [] divisor remainder = Some remainder"
| "mod_division (digit # dividend) divisor remainder =
     (case mod_while (normalize (remainder @ [digit])) divisor of
        None \<Rightarrow> None
      | Some remainder \<Rightarrow> mod_division dividend divisor remainder)"

definition mod_BigInt :: "BigInt \<Rightarrow> BigInt \<Rightarrow> (error + BigInt) option" where
  "mod_BigInt self other =
     (case to_int other of
        Inl e \<Rightarrow> Some (Inl e)
      | Inr v \<Rightarrow>
          if v = 0 then Some (Inl DivisionByZero)
          else if digits self = [] then Some (Inl IndexError)
          else
            (let sign = (if hd (digits self) \<ge> 0 then 1 else - 1 :: int);
                 dividend = map abs (digits self);
                 divisor = map abs (digits other)
             in case mod_division dividend divisor [] of
                  None \<Rightarrow> None
                | Some remainder \<Rightarrow>
                    Some (Inr \<lparr>base = 10, digits = normalize (map (\<lambda>d. sign * d) remainder)\<rparr>)))"

section \<open>Factorial\<close>

text \<open>
  The loop \<open>while current.to_int() <= self.to_int()\<close>: \<open>result *= current\<close> is
  \<open>__mul__\<close> and \<open>current += BigInt(1)\<close> is \<open>__add__\<close>, the class defining no in-place
  operators.
\<close>

partial_function (option) factorial_loop :: "nat \<Rightarrow> BigInt \<Rightarrow> BigInt \<Rightarrow> BigInt \<Rightarrow> (error + BigInt) option" where
  "factorial_loop depth self result current =
     (case to_int current of
        Inl e \<Rightarrow> Some (Inl e)
      | Inr c \<Rightarrow>
          (case to_int self of
             Inl e \<Rightarrow> Some (Inl e)
           | Inr n \<Rightarrow>
               if c \<le> n then
                 (case mul result current of
                    Inl e \<Rightarrow> Some (Inl e)
                  | Inr result \<Rightarrow>
                      (case init (PyInt 1) 10 of
                         None \<Rightarrow> None
                       | Some (Inl e) \<Rightarrow> Some (Inl e)
                       | Some (Inr one) \<Rightarrow>
                           (case add depth current one of
                              Inl e \<Rightarrow> Some (Inl e)
                            | Inr current \<Rightarrow> factorial_loop depth self result current)))
               else Some (Inr result)))"

declare factorial_loop.simps [code]

definition factorial :: "nat \<Rightarrow> BigInt \<Rightarrow> (error + BigInt) option" where
  "factorial depth self =
     (case to_int self of
        Inl e \<Rightarrow> Some (Inl e)
      | Inr n \<Rightarrow>
          if n < 0 then Some (Inl InvalidDomain)
          else if n \<le> 1 then init (PyInt 1) 10
          else
            (case init (PyInt 1) 10 of
               None \<Rightarrow> None
             | Some (Inl e) \<Rightarrow> Some (Inl e)
             | Some (Inr result) \<Rightarrow>
                 (case init (PyInt 1) 10 of
                    None \<Rightarrow> None
                  | Some (Inl e) \<Rightarrow> Some (Inl e)
                  | Some (Inr current) \<Rightarrow> factorial_loop depth self result current)))"

section \<open>The representation invariants of the specification\<close>

text \<open>
  The three invariants of a well-formed number: every digit magnitude is below the
  base, the digits are all non-negative or all non-positive, and the leading digit is
  zero only in the canonical zero \<open>[0]\<close>. A well-formed number has a base of at least 2
  and at least one digit.
\<close>

definition digits_in_range :: "BigInt \<Rightarrow> bool" where
  "digits_in_range x = list_all (\<lambda>d. \<bar>d\<bar> < base x) (digits x)"

definition uniform_sign :: "int list \<Rightarrow> bool" where
  "uniform_sign ds = (list_all (\<lambda>d. 0 \<le> d) ds \<or> list_all (\<lambda>d. d \<le> 0) ds)"

definition normalized :: "int list \<Rightarrow> bool" where
  "normalized ds = (case ds of [] \<Rightarrow> False | d # rest \<Rightarrow> 0 < \<bar>d\<bar> \<or> rest = [])"

definition well_formed :: "BigInt \<Rightarrow> bool" where
  "well_formed x =
     (2 \<le> base x \<and> digits_in_range x \<and> uniform_sign (digits x) \<and> normalized (digits x))"

text \<open>
  Construction from a numeral string followed by \<open>__str__\<close>, the round trip of the
  specification.
\<close>

definition construct_and_display :: "string \<Rightarrow> int \<Rightarrow> (error + string) option" where
  "construct_and_display s b =
     (case init (PyStr s) b of
        None \<Rightarrow> None
      | Some (Inl e) \<Rightarrow> Some (Inl e)
      | Some (Inr x) \<Rightarrow> Some (Inr (str_BigInt x)))"

text \<open>A string of decimal digit characters, each below the base.\<close>

definition decimal_digits_below :: "int \<Rightarrow> string \<Rightarrow> bool" where
  "decimal_digits_below b s =
     list_all (\<lambda>c. 48 \<le> (of_char c :: nat) \<and> (of_char c :: nat) \<le> 57 \<and> int (of_char c) - 48 < b) s"

section \<open>Construction: what the constructor accepts\<close>

lemma well_formed_nonempty: "well_formed x \<Longrightarrow> digits x \<noteq> []"
  by (auto simp: well_formed_def normalized_def split: list.splits)

lemma int_digits_loop_nonpos: "v \<le> 0 \<Longrightarrow> int_digits_loop v b ds = Some (Inr ds)"
  by (simp add: int_digits_loop.simps)

lemma init_negative_int: "n < 0 \<Longrightarrow> init (PyInt n) b = Some (Inr \<lparr>base = b, digits = []\<rparr>)"
  by (simp add: init_def int_digits_loop_nonpos validated_def)

lemma validate_digits_negative:
  "d \<in> set ds \<Longrightarrow> d < 0 \<Longrightarrow> validate_digits b ds = Inl OutOfRangeDigit"
  by (induction ds) auto

lemma init_str_negative_digit_rejected:
  "from_str s b = Inr ds \<Longrightarrow> d \<in> set ds \<Longrightarrow> d < 0 \<Longrightarrow>
   init (PyStr s) b = Some (Inl OutOfRangeDigit)"
  by (simp add: init_def validated_def validate_digits_negative)

text \<open>
  C1. The claim: a numeral string with a leading \<open>-\<close> and valid digits is constructed
  with negated digits, validation accepting every digit whose magnitude is below the
  base. The code: \<open>from_str\<close> negates the digits, and \<open>_validate_digits\<close>, which tests
  \<open>digit < 0\<close>, then rejects them: \<open>BigInt("-4")\<close> raises the out-of-range \<open>ValueError\<close>.
\<close>

theorem C1_negative_numeral_rejected:
  "from_str ''-4'' 10 = Inr [- 4] \<and>
   validate_digits 10 [- 4] = Inl OutOfRangeDigit \<and>
   init (PyStr ''-4'') 10 = Some (Inl OutOfRangeDigit)"
  by code_simp

text \<open>
  C4. The claim: construction from a negative native integer gives a well-formed
  number with negated digits. The code: the loop \<open>while value > 0\<close> never runs for a
  negative value, so \<open>BigInt(-1)\<close> is an object with no digit at all, which is not
  well formed.
\<close>

theorem C4_negative_int_has_no_digits:
  "init (PyInt (- 1)) 10 = Some (Inr \<lparr>base = 10, digits = []\<rparr>) \<and>
   \<not> well_formed \<lparr>base = 10, digits = []\<rparr>"
  by (simp add: init_negative_int well_formed_def normalized_def)

section \<open>The round trip through the display string\<close>

lemma decimal_char_digit:
  "48 \<le> (of_char c :: nat) \<Longrightarrow> (of_char c :: nat) \<le> 57 \<Longrightarrow> char_digit c = Some (int (of_char c) - 48)"
  by (simp add: char_digit_def Let_def)

lemma decimal_not_space: "48 \<le> (of_char c :: nat) \<Longrightarrow> (of_char c :: nat) \<le> 57 \<Longrightarrow> \<not> isspace c"
  by (auto simp: isspace_def)

lemma dropWhile_hd_id: "xs = [] \<or> \<not> P (hd xs) \<Longrightarrow> dropWhile P xs = xs"
  by (cases xs) auto

lemma strip_decimal: "decimal_digits_below b s \<Longrightarrow> strip s = s"
proof -
  assume d: "decimal_digits_below b s"
  have all: "\<forall>c \<in> set s. \<not> isspace c"
    using d by (auto simp: decimal_digits_below_def list_all_iff decimal_not_space)
  have 1: "dropWhile isspace s = s"
    using all by (intro dropWhile_hd_id) (cases s, auto)
  have 2: "dropWhile isspace (rev s) = rev s"
    using all by (intro dropWhile_hd_id) (cases "rev s", auto simp: hd_rev last_in_set)
  show ?thesis by (simp add: strip_def 1 2)
qed

lemma parse_chars_decimal:
  "decimal_digits_below b s \<Longrightarrow> 2 \<le> b \<Longrightarrow> b \<le> 36 \<Longrightarrow>
   parse_chars s b ds = Inr (ds @ map (\<lambda>c. int (of_char c) - 48) s)"
proof (induction s arbitrary: ds)
  case Nil
  show ?case by simp
next
  case (Cons c s)
  from Cons.prems(1) have c: "48 \<le> (of_char c :: nat)" "(of_char c :: nat) \<le> 57" "int (of_char c) - 48 < b"
    and s: "decimal_digits_below b s"
    by (simp_all add: decimal_digits_below_def)
  have "int_char c b = Inr (int (of_char c) - 48)"
    using c Cons.prems(2,3) by (simp add: int_char_def decimal_char_digit)
  then show ?case
    using Cons.IH [OF s Cons.prems(2,3)] by simp
qed

lemma validate_digits_decimal:
  "decimal_digits_below b s \<Longrightarrow> validate_digits b (map (\<lambda>c. int (of_char c) - 48) s) = Inr ()"
  by (induction s) (auto simp: decimal_digits_below_def)

lemma str_nat_decimal:
  assumes "48 \<le> (of_char c :: nat)" and "(of_char c :: nat) \<le> 57"
  shows "str_nat (nat (int (of_char c) - 48)) = [c]"
proof -
  define n :: nat where "n = of_char c - 48"
  have n: "nat (int (of_char c) - 48) = n" using assms by (simp add: n_def)
  have lt: "n < 10" using assms by (simp add: n_def)
  have "str_nat n = [digit_char n]"
    using lt by (subst str_nat.simps) simp
  also have "digit_char n = c"
    using assms by (simp add: digit_char_def n_def)
  finally show ?thesis by (simp add: n)
qed

lemma concat_str_decimal:
  "decimal_digits_below b s \<Longrightarrow>
   concat (map (\<lambda>digit. str_nat (nat \<bar>digit\<bar>)) (map (\<lambda>c. int (of_char c) - 48) s)) = s"
  by (induction s) (auto simp: decimal_digits_below_def str_nat_decimal)

lemma from_str_decimal:
  assumes "decimal_digits_below b s" "2 \<le> b" "b \<le> 36"
  shows "from_str s b = Inr (map (\<lambda>c. int (of_char c) - 48) s)"
proof -
  have nm: "\<not> (s \<noteq> [] \<and> hd s = CHR ''-'')"
    using assms(1) by (cases s) (auto simp: decimal_digits_below_def)
  have p: "parse_chars s b [] = Inr (map (\<lambda>c. int (of_char c) - 48) s)"
    using parse_chars_decimal [OF assms, of "[]"] by simp
  have z: "s = ''0'' \<Longrightarrow> map (\<lambda>c. int (of_char c) - 48) s = [0]"
    by simp
  show ?thesis
    using nm p z by (auto simp: from_str_def strip_decimal [OF assms(1)] Let_def)
qed

lemma hd_decimal_nonneg:
  "decimal_digits_below b s \<Longrightarrow> s \<noteq> [] \<Longrightarrow> 0 \<le> hd (map (\<lambda>c. int (of_char c) - 48) s)"
  by (cases s) (auto simp: decimal_digits_below_def)

text \<open>
  C5, as the code has it. For every base from 2 to 36 and every numeral string without
  sign marker made of the characters \<open>0\<close>..\<open>9\<close>, each below the base, construction
  succeeds and \<open>__str__\<close> gives the string back: every digit is printed by its decimal
  numeral, most significant first, and zero prints as \<open>0\<close>.
\<close>

theorem C5_roundtrip_decimal_digits:
  assumes "2 \<le> b" and "b \<le> 36" and "decimal_digits_below b s"
  shows "construct_and_display s b = Some (Inr s)"
proof -
  let ?ds = "map (\<lambda>c. int (of_char c) - 48) s"
  have i: "init (PyStr s) b = Some (Inr \<lparr>base = b, digits = ?ds\<rparr>)"
    by (simp add: init_def from_str_decimal [OF assms(3,1,2)] validated_def
        validate_digits_decimal [OF assms(3)])
  have "str_BigInt \<lparr>base = b, digits = ?ds\<rparr> = s"
    using hd_decimal_nonneg [OF assms(3)] concat_str_decimal [OF assms(3)]
    by (auto simp: str_BigInt_def)
  then show ?thesis by (simp add: construct_and_display_def i)
qed

theorem C5_witness:
  "(2::int) \<le> 10 \<and> (10::int) \<le> 36 \<and> decimal_digits_below 10 ''1907'' \<and>
   construct_and_display ''1907'' 10 = Some (Inr ''1907'') \<and>
   construct_and_display ''0'' 10 = Some (Inr ''0'')"
proof -
  have d: "decimal_digits_below 10 ''1907''" by code_simp
  have z: "decimal_digits_below 10 ''0''" by code_simp
  show ?thesis
    using C5_roundtrip_decimal_digits [OF _ _ d] C5_roundtrip_decimal_digits [OF _ _ z] d by simp
qed

text \<open>
  C5 as stated fails for a digit above 9: \<open>f\<close> is a valid digit of base 16, and
  \<open>__str__\<close> prints it as the two characters \<open>15\<close>, not as one character of the base.
\<close>

theorem C5_counterexample:
  "int_char CHR ''f'' 16 = Inr 15 \<and>
   construct_and_display ''f'' 16 = Some (Inr ''15'') \<and>
   construct_and_display ''f'' 16 \<noteq> Some (Inr ''f'')"
  by code_simp


section \<open>Subtraction and addition across signs\<close>

lemma hd_map_nonempty: "xs \<noteq> [] \<Longrightarrow> hd (map f xs) = f (hd xs)"
  by (cases xs) auto

lemma sub_nonneg_TypeError:
  "digits a \<noteq> [] \<Longrightarrow> digits b \<noteq> [] \<Longrightarrow> 0 \<le> hd (digits a) \<Longrightarrow> 0 \<le> hd (digits b) \<Longrightarrow>
   sub (Suc depth) a b = Inl TypeError"
  by (simp add: lt_BigInt_def)

lemma sub_negative_nonneg_RecursionError:
  "digits a \<noteq> [] \<Longrightarrow> digits b \<noteq> [] \<Longrightarrow> hd (digits a) < 0 \<Longrightarrow> 0 \<le> hd (digits b) \<Longrightarrow>
   sub depth a b = Inl RecursionError"
proof (induction depth arbitrary: a)
  case 0
  show ?case by simp
next
  case (Suc depth)
  let ?a = "neg (abs_BigInt a)"
  have ne: "digits ?a \<noteq> []" using Suc.prems(1) by (simp add: neg_def abs_BigInt_def)
  have lt: "hd (digits ?a) < 0"
    using Suc.prems(1,3) by (simp add: neg_def abs_BigInt_def hd_map_nonempty)
  have "sub (Suc depth) a b = sub depth ?a b"
    using Suc.prems by simp
  also have "\<dots> = Inl RecursionError"
    by (rule Suc.IH [OF ne Suc.prems(2) lt Suc.prems(4)])
  finally show ?case .
qed

lemma add_mixed_sign_TypeError:
  assumes "digits a \<noteq> []" and "digits b \<noteq> []"
    and "hd (digits a) < 0 \<and> 0 \<le> hd (digits b) \<or> 0 \<le> hd (digits a) \<and> hd (digits b) < 0"
  shows "add (Suc (Suc depth)) a b = Inl TypeError"
proof -
  have abs_ne: "\<And>x. digits x \<noteq> [] \<Longrightarrow> digits (abs_BigInt x) \<noteq> []"
    by (simp add: abs_BigInt_def)
  have abs_hd: "\<And>x. digits x \<noteq> [] \<Longrightarrow> 0 \<le> hd (digits (abs_BigInt x))"
    by (simp add: abs_BigInt_def hd_map_nonempty)
  from assms(3) show ?thesis
  proof
    assume s: "hd (digits a) < 0 \<and> 0 \<le> hd (digits b)"
    then have "add (Suc (Suc depth)) a b = sub (Suc depth) b (abs_BigInt a)"
      using assms(1,2) by simp
    also have "\<dots> = Inl TypeError"
      using s assms(1,2) by (intro sub_nonneg_TypeError abs_ne abs_hd) simp_all
    finally show ?thesis .
  next
    assume s: "0 \<le> hd (digits a) \<and> hd (digits b) < 0"
    then have "add (Suc (Suc depth)) a b = sub (Suc depth) a (abs_BigInt b)"
      using assms(1,2) by simp
    also have "\<dots> = Inl TypeError"
      using s assms(1,2) by (intro sub_nonneg_TypeError abs_ne abs_hd) simp_all
    finally show ?thesis .
  qed
qed

text \<open>
  C2. The claim: for non-negative operands with \<open>|self| < |other|\<close>, \<open>self - other\<close> is
  the negation of \<open>other - self\<close>, and \<open>5 - 9\<close> is \<open>-4\<close>. The code: \<open>__sub__\<close> reaches
  \<open>abs(self) < abs(other)\<close>, an ordering the class does not define, so the subtraction
  of two non-negative numbers raises \<open>TypeError\<close> in both directions.
\<close>

theorem C2_sub_nonnegative_raises:
  "init (PyStr ''5'') 10 = Some (Inr \<lparr>base = 10, digits = [5]\<rparr>) \<and>
   init (PyStr ''9'') 10 = Some (Inr \<lparr>base = 10, digits = [9]\<rparr>) \<and>
   sub 1000 \<lparr>base = 10, digits = [5]\<rparr> \<lparr>base = 10, digits = [9]\<rparr> = Inl TypeError \<and>
   sub 1000 \<lparr>base = 10, digits = [9]\<rparr> \<lparr>base = 10, digits = [5]\<rparr> = Inl TypeError"
  by code_simp

section \<open>The base of a result\<close>

lemma add_digits_base: "add_digits a b = Inr r \<Longrightarrow> base r = 10"
  by (auto simp: add_digits_def Let_def split: if_splits prod.splits)

lemma sub_digits_base: "base (sub_digits a b) = 10"
  by (simp add: sub_digits_def Let_def split: prod.splits)

lemma add_sub_base:
  "(add depth a b = Inr r \<longrightarrow> base r = 10) \<and> (sub depth a b = Inr r \<longrightarrow> base r = 10)"
proof (induction depth arbitrary: a b r)
  case 0
  show ?case by simp
next
  case (Suc depth)
  show ?case
    using Suc.IH
    by (auto simp: lt_BigInt_def add_digits_base split: if_splits)
qed

lemma mul_base: "mul a b = Inr r \<Longrightarrow> base r = 10"
  by (auto simp: mul_def Let_def split: if_splits)

lemma floordiv_base: "floordiv a b = Some (Inr r) \<Longrightarrow> base r = 10"
  by (auto simp: floordiv_def Let_def split: if_splits sum.splits option.splits prod.splits)

lemma mod_base: "mod_BigInt a b = Some (Inr r) \<Longrightarrow> base r = 10"
  by (auto simp: mod_BigInt_def Let_def split: if_splits sum.splits option.splits prod.splits)

text \<open>
  C10. Whatever the operands and their bases, a number returned by \<open>__add__\<close>,
  \<open>__sub__\<close>, \<open>__mul__\<close>, \<open>__floordiv__\<close> or \<open>__mod__\<close> has the base 10 of \<open>BigInt()\<close>;
  \<open>__neg__\<close> and \<open>__abs__\<close> copy the base of their operand.
\<close>

theorem C10_result_base_is_default:
  "(add depth a b = Inr r1 \<longrightarrow> base r1 = 10) \<and>
   (sub depth a b = Inr r2 \<longrightarrow> base r2 = 10) \<and>
   (mul a b = Inr r3 \<longrightarrow> base r3 = 10) \<and>
   (floordiv a b = Some (Inr r4) \<longrightarrow> base r4 = 10) \<and>
   (mod_BigInt a b = Some (Inr r5) \<longrightarrow> base r5 = 10) \<and>
   base (neg a) = base a \<and> base (abs_BigInt a) = base a"
  using add_sub_base [of depth a b r1] add_sub_base [of depth a b r2]
    mul_base [of a b r3] floordiv_base [of a b r4] mod_base [of a b r5]
  by (simp add: neg_def abs_BigInt_def)

theorem C10_witness:
  "add 1000 \<lparr>base = 16, digits = [1, 4, 3]\<rparr> \<lparr>base = 16, digits = [15]\<rparr>
     = Inr \<lparr>base = 10, digits = [1, 5, 2]\<rparr> \<and>
   sub 1000 \<lparr>base = 16, digits = [1, 4, 3]\<rparr> \<lparr>base = 16, digits = [- 15]\<rparr>
     = Inr \<lparr>base = 10, digits = [1, 5, 2]\<rparr> \<and>
   mul \<lparr>base = 16, digits = [1, 4, 3]\<rparr> \<lparr>base = 16, digits = [15]\<rparr>
     = Inr \<lparr>base = 10, digits = [1, 2, 14, 13]\<rparr> \<and>
   floordiv \<lparr>base = 16, digits = [1, 4, 3]\<rparr> \<lparr>base = 16, digits = [15]\<rparr>
     = Some (Inr \<lparr>base = 10, digits = [1, 9]\<rparr>) \<and>
   mod_BigInt \<lparr>base = 16, digits = [1, 4, 3]\<rparr> \<lparr>base = 16, digits = [15]\<rparr>
     = Some (Inr \<lparr>base = 10, digits = [- 42]\<rparr>) \<and>
   base \<lparr>base = 10, digits = [1, 5, 2]\<rparr> = 10 \<and>
   base \<lparr>base = 10, digits = [1, 2, 14, 13]\<rparr> = 10 \<and>
   base \<lparr>base = 10, digits = [1, 9]\<rparr> = 10 \<and>
   base \<lparr>base = 10, digits = [- 42]\<rparr> = 10 \<and>
   base (neg \<lparr>base = 16, digits = [1, 4, 3]\<rparr>) = 16 \<and>
   base (abs_BigInt \<lparr>base = 16, digits = [1, 4, 3]\<rparr>) = 16"
proof -
  let ?a = "\<lparr>base = 16, digits = [1, 4, 3]\<rparr>"
  let ?b = "\<lparr>base = 16, digits = [15]\<rparr>"
  let ?c = "\<lparr>base = 16, digits = [- 15]\<rparr>"
  have 1: "add 1000 ?a ?b = Inr \<lparr>base = 10, digits = [1, 5, 2]\<rparr>" by code_simp
  have 2: "sub 1000 ?a ?c = Inr \<lparr>base = 10, digits = [1, 5, 2]\<rparr>" by code_simp
  have 3: "mul ?a ?b = Inr \<lparr>base = 10, digits = [1, 2, 14, 13]\<rparr>" by code_simp
  have 4: "floordiv ?a ?b = Some (Inr \<lparr>base = 10, digits = [1, 9]\<rparr>)" by code_simp
  have 5: "mod_BigInt ?a ?b = Some (Inr \<lparr>base = 10, digits = [- 42]\<rparr>)" by code_simp
  show ?thesis
    using 1 2 3 4 5
      C10_result_base_is_default [of 1000 ?a ?b "\<lparr>base = 10, digits = [1, 5, 2]\<rparr>" _
        "\<lparr>base = 10, digits = [1, 2, 14, 13]\<rparr>" "\<lparr>base = 10, digits = [1, 9]\<rparr>"
        "\<lparr>base = 10, digits = [- 42]\<rparr>"]
      C10_result_base_is_default [of 1000 ?a ?c _ "\<lparr>base = 10, digits = [1, 5, 2]\<rparr>"]
    by simp
qed

section \<open>Division and modulo\<close>

lemma to_int_nonempty: "digits x \<noteq> [] \<Longrightarrow> \<exists>v. to_int x = Inr v"
  by (cases "digits x") (auto simp: to_int_def Let_def)

lemma floordiv_zero_iff:
  "digits other \<noteq> [] \<Longrightarrow>
   (floordiv self other = Some (Inl DivisionByZero) \<longleftrightarrow> to_int other = Inr 0)"
  using to_int_nonempty [of other]
  by (auto simp: floordiv_def Let_def split: if_splits sum.splits option.splits prod.splits)

lemma mod_zero_iff:
  "digits other \<noteq> [] \<Longrightarrow>
   (mod_BigInt self other = Some (Inl DivisionByZero) \<longleftrightarrow> to_int other = Inr 0)"
  using to_int_nonempty [of other]
  by (auto simp: mod_BigInt_def Let_def split: if_splits sum.splits option.splits prod.splits)


text \<open>
  C7. For every dividend and every well-formed divisor, \<open>__floordiv__\<close> and \<open>__mod__\<close>
  raise \<open>ZeroDivisionError\<close> exactly when \<open>to_int\<close> of the divisor is zero. The test is
  the first statement of both methods: the dividend is not read before it, so the
  error is raised even for a dividend without digits, and no other path of the two
  methods raises it.
\<close>

theorem C7_division_by_zero_iff:
  "well_formed other \<Longrightarrow>
   (floordiv self other = Some (Inl DivisionByZero) \<longleftrightarrow> to_int other = Inr 0) \<and>
   (mod_BigInt self other = Some (Inl DivisionByZero) \<longleftrightarrow> to_int other = Inr 0)"
  using floordiv_zero_iff [of other self] mod_zero_iff [of other self]
  by (simp add: well_formed_nonempty)

theorem C7_witness:
  "well_formed \<lparr>base = 10, digits = [0]\<rparr> \<and>
   to_int \<lparr>base = 10, digits = [0]\<rparr> = Inr 0 \<and>
   floordiv \<lparr>base = 10, digits = [1, 0, 0]\<rparr> \<lparr>base = 10, digits = [0]\<rparr> = Some (Inl DivisionByZero) \<and>
   mod_BigInt \<lparr>base = 10, digits = [1, 0, 0]\<rparr> \<lparr>base = 10, digits = [0]\<rparr> = Some (Inl DivisionByZero) \<and>
   floordiv \<lparr>base = 10, digits = []\<rparr> \<lparr>base = 10, digits = [0]\<rparr> = Some (Inl DivisionByZero) \<and>
   well_formed \<lparr>base = 10, digits = [7]\<rparr> \<and>
   to_int \<lparr>base = 10, digits = [7]\<rparr> = Inr 7 \<and>
   floordiv \<lparr>base = 10, digits = [1, 0, 0]\<rparr> \<lparr>base = 10, digits = [7]\<rparr> \<noteq> Some (Inl DivisionByZero) \<and>
   mod_BigInt \<lparr>base = 10, digits = [1, 0, 0]\<rparr> \<lparr>base = 10, digits = [7]\<rparr> \<noteq> Some (Inl DivisionByZero)"
proof -
  let ?z = "\<lparr>base = 10, digits = [0]\<rparr>"
  let ?s = "\<lparr>base = 10, digits = [7]\<rparr>"
  let ?a = "\<lparr>base = 10, digits = [1, 0, 0]\<rparr>"
  have wz: "well_formed ?z" by code_simp
  have ws: "well_formed ?s" by code_simp
  have tz: "to_int ?z = Inr 0" by code_simp
  have ts: "to_int ?s = Inr 7" by code_simp
  show ?thesis
    using wz ws tz ts
      C7_division_by_zero_iff [OF wz, of ?a]
      C7_division_by_zero_iff [OF wz, of "\<lparr>base = 10, digits = []\<rparr>"]
      C7_division_by_zero_iff [OF ws, of ?a]
    by simp
qed

text \<open>
  C3. The claim: in every base from 2 to 36 the long division gives the quotient and
  the remainder of the operands' values, the digit subtraction borrowing in the
  operands' base. The code: \<open>_list_subtract\<close> borrows 10 whatever the base. In base 8,
  for \<open>10\<close> (eight) and \<open>3\<close>, the remainder \<open>[1, 0]\<close> minus \<open>[3]\<close> is \<open>[7]\<close>, so the
  quotient is 3 and the remainder 1, where eight divided by three is 2, remainder 2.
\<close>

theorem C3_division_borrows_ten:
  "init (PyStr ''10'') 8 = Some (Inr \<lparr>base = 8, digits = [1, 0]\<rparr>) \<and>
   init (PyStr ''3'') 8 = Some (Inr \<lparr>base = 8, digits = [3]\<rparr>) \<and>
   to_int \<lparr>base = 8, digits = [1, 0]\<rparr> = Inr 8 \<and>
   to_int \<lparr>base = 8, digits = [3]\<rparr> = Inr 3 \<and>
   list_subtract [1, 0] [3] = [7] \<and>
   floordiv \<lparr>base = 8, digits = [1, 0]\<rparr> \<lparr>base = 8, digits = [3]\<rparr>
     = Some (Inr \<lparr>base = 10, digits = [3]\<rparr>) \<and>
   mod_BigInt \<lparr>base = 8, digits = [1, 0]\<rparr> \<lparr>base = 8, digits = [3]\<rparr>
     = Some (Inr \<lparr>base = 10, digits = [1]\<rparr>)"
  by code_simp

text \<open>
  C6. The claim: \<open>(a // b) * b + a % b\<close> is \<open>a\<close> for every well-formed pair with a
  non-zero divisor. The code: for \<open>a = -BigInt(6)\<close> and \<open>b = BigInt(2)\<close> the quotient is
  \<open>-3\<close>, the remainder \<open>0\<close> and the product \<open>-6\<close>; the final addition of a negative
  and a non-negative number goes through \<open>__sub__\<close> and raises \<open>TypeError\<close>.
\<close>

theorem C6_division_relation_raises:
  "init (PyInt 6) 10 = Some (Inr \<lparr>base = 10, digits = [6]\<rparr>) \<and>
   init (PyInt 2) 10 = Some (Inr \<lparr>base = 10, digits = [2]\<rparr>) \<and>
   neg \<lparr>base = 10, digits = [6]\<rparr> = \<lparr>base = 10, digits = [- 6]\<rparr> \<and>
   well_formed \<lparr>base = 10, digits = [- 6]\<rparr> \<and>
   well_formed \<lparr>base = 10, digits = [2]\<rparr> \<and>
   floordiv \<lparr>base = 10, digits = [- 6]\<rparr> \<lparr>base = 10, digits = [2]\<rparr>
     = Some (Inr \<lparr>base = 10, digits = [- 3]\<rparr>) \<and>
   mod_BigInt \<lparr>base = 10, digits = [- 6]\<rparr> \<lparr>base = 10, digits = [2]\<rparr>
     = Some (Inr \<lparr>base = 10, digits = [0]\<rparr>) \<and>
   mul \<lparr>base = 10, digits = [- 3]\<rparr> \<lparr>base = 10, digits = [2]\<rparr>
     = Inr \<lparr>base = 10, digits = [- 6]\<rparr> \<and>
   add 1000 \<lparr>base = 10, digits = [- 6]\<rparr> \<lparr>base = 10, digits = [0]\<rparr> = Inl TypeError"
  by code_simp

text \<open>
  C9. The claim: every operation on well-formed operands returns a number that
  satisfies the three invariants, or fails. The code: in base 16, \<open>143 % f0\<close> returns
  the digits \<open>[-1, 3]\<close> (the borrow of \<open>_list_subtract\<close> adds 10, not 16), a number
  with digits of both signs, and \<open>143 % f\<close> returns the single digit \<open>-42\<close>, whose
  magnitude is below neither the base 10 of the result nor the base 16 of the operands.
\<close>

theorem C9_mod_returns_mixed_signs:
  "init (PyStr ''143'') 16 = Some (Inr \<lparr>base = 16, digits = [1, 4, 3]\<rparr>) \<and>
   init (PyStr ''f0'') 16 = Some (Inr \<lparr>base = 16, digits = [15, 0]\<rparr>) \<and>
   well_formed \<lparr>base = 16, digits = [1, 4, 3]\<rparr> \<and>
   well_formed \<lparr>base = 16, digits = [15, 0]\<rparr> \<and>
   mod_BigInt \<lparr>base = 16, digits = [1, 4, 3]\<rparr> \<lparr>base = 16, digits = [15, 0]\<rparr>
     = Some (Inr \<lparr>base = 10, digits = [- 1, 3]\<rparr>) \<and>
   \<not> uniform_sign [- 1, 3] \<and>
   \<not> well_formed \<lparr>base = 10, digits = [- 1, 3]\<rparr> \<and>
   \<not> well_formed \<lparr>base = 16, digits = [- 1, 3]\<rparr> \<and>
   well_formed \<lparr>base = 16, digits = [15]\<rparr> \<and>
   mod_BigInt \<lparr>base = 16, digits = [1, 4, 3]\<rparr> \<lparr>base = 16, digits = [15]\<rparr>
     = Some (Inr \<lparr>base = 10, digits = [- 42]\<rparr>) \<and>
   \<not> digits_in_range \<lparr>base = 10, digits = [- 42]\<rparr> \<and>
   \<not> digits_in_range \<lparr>base = 16, digits = [- 42]\<rparr>"
  by code_simp

section \<open>Factorial\<close>

lemma factorial_no_digits: "factorial depth \<lparr>base = b, digits = []\<rparr> = Some (Inl IndexError)"
  by (simp add: factorial_def to_int_def)

lemma factorial_negative:
  "to_int self = Inr n \<Longrightarrow> n < 0 \<Longrightarrow> factorial depth self = Some (Inl InvalidDomain)"
  by (simp add: factorial_def)

text \<open>
  C8. The claim: factorial of a negative number fails with the invalid-domain error,
  in particular \<open>factorial(Construct(-1))\<close>. The code: \<open>BigInt(-1)\<close> has no digits, and the
  first \<open>self.to_int()\<close> of \<open>factorial\<close> raises \<open>IndexError\<close> on \<open>self.digits[0]\<close> before the
  sign is tested. A negative number made by \<open>__neg__\<close> does get the invalid-domain
  error, and 5 gives 120.
\<close>

theorem C8_factorial_of_negative_int_raises_IndexError:
  "init (PyInt (- 1)) 10 = Some (Inr \<lparr>base = 10, digits = []\<rparr>) \<and>
   factorial 1000 \<lparr>base = 10, digits = []\<rparr> = Some (Inl IndexError) \<and>
   factorial 1000 (neg \<lparr>base = 10, digits = [1]\<rparr>) = Some (Inl InvalidDomain) \<and>
   factorial 1000 \<lparr>base = 10, digits = [5]\<rparr> = Some (Inr \<lparr>base = 10, digits = [1, 2, 0]\<rparr>)"
  by code_simp

end
